theory Spec2Isabelle
  imports Complex_Main "HOL-Library.Word"
begin

section \<open>Errors and results\<close>

text \<open>
  A Go \<^verbatim>\<open>error\<close> is either the store's sentinel \<^verbatim>\<open>store.ErrNotFound\<close> (compared by
  identity in the source) or any other error, kept with its message. A call ends in one of
  three ways: it returns a value, it returns an error, or it panics (a nil pointer is
  dereferenced).
\<close>

datatype error = ErrNotFound | Error string

datatype 'a result = Ok 'a | Err error | Panic

text \<open>\<^verbatim>\<open>return err\<close> for an \<^verbatim>\<open>err\<close> that may be nil: nil is success.\<close>

definition return_err :: "error option \<Rightarrow> unit result" where
  "return_err err = (case err of None \<Rightarrow> Ok () | Some e \<Rightarrow> Err e)"

section \<open>math/big: floats\<close>

text \<open>
  A \<^verbatim>\<open>big.Float\<close> holds a precision (mantissa bits) and a value: a finite number, kept as
  a rational, or one of the two infinities. A finite value of precision \<open>p\<close> is kept rounded
  to \<open>p\<close> significant bits, to nearest, ties to even (the default rounding mode, which the
  source never changes). The sign of a zero is not kept: the only quotient of the source
  whose divisor can be a zero is the one of \<^verbatim>\<open>CalculateWeight\<close>, where the divisor is read from
  the text of an integer. Exponents are unbounded.
\<close>

datatype fvalue = Finite rat | PosInf | NegInf

record Float =
  fprec :: nat
  fval :: fvalue

fun negative :: "fvalue \<Rightarrow> bool" where
  "negative (Finite a) = (a < 0)"
| "negative PosInf = False"
| "negative NegInf = True"

definition infinity :: "bool \<Rightarrow> fvalue" where
  "infinity neg = (if neg then NegInf else PosInf)"

text \<open>The number of base-\<open>b\<close> digits of a positive integer.\<close>

function ndigits :: "int \<Rightarrow> int \<Rightarrow> int" where
  "ndigits b n = (if n \<le> 0 \<or> b \<le> 1 then 0 else 1 + ndigits b (n div b))"
  by pat_completeness auto
termination
  by (relation "measure (\<lambda>(b, n). nat n)") (auto intro!: int_div_less_self)

declare ndigits.simps [simp del]

text \<open>For \<open>x > 0\<close>, the integer \<open>e\<close> with \<open>b ^ e \<le> x < b ^ (e + 1)\<close>.\<close>

definition ilog :: "int \<Rightarrow> rat \<Rightarrow> int" where
  "ilog b x = (let (p, q) = quotient_of x; d = ndigits b p - ndigits b q
     in if power_int (of_int b) d \<le> x then d else d - 1)"

definition round_half_even :: "rat \<Rightarrow> int" where
  "round_half_even x = (let f = \<lfloor>x\<rfloor>; d = x - of_int f
     in if d < 1 / 2 then f else if 1 / 2 < d then f + 1 else if even f then f else f + 1)"

text \<open>Rounding to \<open>n\<close> significant base-\<open>b\<close> digits, to nearest, ties to even.\<close>

definition round_sig :: "int \<Rightarrow> nat \<Rightarrow> rat \<Rightarrow> rat" where
  "round_sig b n x = (if x = 0 \<or> n = 0 then 0 else
     let e = ilog b \<bar>x\<bar> + 1 - int n; u = power_int (of_int b) e
     in sgn x * of_int (round_half_even (\<bar>x\<bar> / u)) * u)"

text \<open>\<^verbatim>\<open>new(big.Float)\<close>: the zero value, of precision 0.\<close>

definition new_Float :: Float where
  "new_Float = \<lparr>fprec = 0, fval = Finite 0\<rparr>"

text \<open>\<^verbatim>\<open>big.NewFloat(x)\<close>: precision 53.\<close>

definition NewFloat :: "rat \<Rightarrow> Float" where
  "NewFloat x = \<lparr>fprec = 53, fval = Finite (round_sig 2 53 x)\<rparr>"

text \<open>
  \<^verbatim>\<open>z.SetString(s)\<close> for a text \<open>s\<close> that denotes the value \<open>x\<close> (a number, or \<^verbatim>\<open>+Inf\<close> or
  \<^verbatim>\<open>-Inf\<close>): a receiver of precision 0 takes precision 64. The conversion is taken as
  correctly rounded.
\<close>

fun round_value :: "nat \<Rightarrow> fvalue \<Rightarrow> fvalue" where
  "round_value p (Finite a) = Finite (round_sig 2 p a)"
| "round_value p PosInf = PosInf"
| "round_value p NegInf = NegInf"

definition SetString :: "Float \<Rightarrow> fvalue \<Rightarrow> Float" where
  "SetString z x = (let p = (if fprec z = 0 then 64 else fprec z)
     in \<lparr>fprec = p, fval = round_value p x\<rparr>)"

text \<open>
  \<^verbatim>\<open>z.Quo(x, y)\<close>, \<^verbatim>\<open>z.Mul(x, y)\<close>, \<^verbatim>\<open>z.Sub(x, y)\<close> store the rounded result in the receiver
  \<open>z\<close>; the value returned here is the receiver's new content, \<open>None\<close> when the call panics
  with \<^verbatim>\<open>ErrNaN\<close>. A receiver of precision 0 takes the larger precision of the operands.
  \<^verbatim>\<open>Quo\<close> panics when both operands are zero or both are infinities, \<^verbatim>\<open>Mul\<close> when one is
  zero and the other an infinity, \<^verbatim>\<open>Sub\<close> when both are infinities of the same sign.
\<close>

definition zprec :: "Float \<Rightarrow> Float \<Rightarrow> Float \<Rightarrow> nat" where
  "zprec z x y = (if fprec z = 0 then max (fprec x) (fprec y) else fprec z)"

fun quo_value :: "nat \<Rightarrow> fvalue \<Rightarrow> fvalue \<Rightarrow> fvalue option" where
  "quo_value p (Finite a) (Finite b) =
     (if b = 0 then (if a = 0 then None else Some (infinity (a < 0)))
      else Some (Finite (round_sig 2 p (a / b))))"
| "quo_value p (Finite a) y = Some (Finite 0)"
| "quo_value p x (Finite b) = Some (infinity (negative x \<noteq> (b < 0)))"
| "quo_value p x y = None"

fun mul_value :: "nat \<Rightarrow> fvalue \<Rightarrow> fvalue \<Rightarrow> fvalue option" where
  "mul_value p (Finite a) (Finite b) = Some (Finite (round_sig 2 p (a * b)))"
| "mul_value p (Finite a) y = (if a = 0 then None else Some (infinity ((a < 0) \<noteq> negative y)))"
| "mul_value p x (Finite b) = (if b = 0 then None else Some (infinity (negative x \<noteq> (b < 0))))"
| "mul_value p x y = Some (infinity (negative x \<noteq> negative y))"

fun sub_value :: "nat \<Rightarrow> fvalue \<Rightarrow> fvalue \<Rightarrow> fvalue option" where
  "sub_value p (Finite a) (Finite b) = Some (Finite (round_sig 2 p (a - b)))"
| "sub_value p (Finite a) y = Some (infinity (\<not> negative y))"
| "sub_value p x (Finite b) = Some x"
| "sub_value p x y = (if negative x = negative y then None else Some x)"

definition with_prec :: "nat \<Rightarrow> fvalue option \<Rightarrow> Float option" where
  "with_prec p v = map_option (\<lambda>r. \<lparr>fprec = p, fval = r\<rparr>) v"

definition Quo :: "Float \<Rightarrow> Float \<Rightarrow> Float \<Rightarrow> Float option" where
  "Quo z x y = with_prec (zprec z x y) (quo_value (zprec z x y) (fval x) (fval y))"

definition Mul :: "Float \<Rightarrow> Float \<Rightarrow> Float \<Rightarrow> Float option" where
  "Mul z x y = with_prec (zprec z x y) (mul_value (zprec z x y) (fval x) (fval y))"

definition Sub :: "Float \<Rightarrow> Float \<Rightarrow> Float \<Rightarrow> Float option" where
  "Sub z x y = with_prec (zprec z x y) (sub_value (zprec z x y) (fval x) (fval y))"

text \<open>
  \<^verbatim>\<open>x.String()\<close> is \<^verbatim>\<open>x.Text('g', 10)\<close>: for a finite value the exact decimal expansion
  rounded to 10 significant digits, ties to even; for an infinity the text \<^verbatim>\<open>+Inf\<close> or
  \<^verbatim>\<open>-Inf\<close>. The model keeps the value that the text denotes.
\<close>

fun text_value :: "fvalue \<Rightarrow> fvalue" where
  "text_value (Finite a) = Finite (round_sig 10 10 a)"
| "text_value PosInf = PosInf"
| "text_value NegInf = NegInf"

definition String :: "Float \<Rightarrow> fvalue" where
  "String x = text_value (fval x)"

section \<open>model/types: Amount and Percentage\<close>

text \<open>
  \<^verbatim>\<open>types.Amount\<close> wraps a \<^verbatim>\<open>*big.Int\<close> (the source tests \<^verbatim>\<open>block.Coinbase.Int == nil\<close>):
  \<open>None\<close> is the nil pointer. \<^verbatim>\<open>String()\<close> of a nil \<^verbatim>\<open>*big.Int\<close> is the text \<^verbatim>\<open><nil>\<close>, which
  \<^verbatim>\<open>SetString\<close> rejects; of any other it is the decimal text of the integer, which
  \<^verbatim>\<open>SetString\<close> accepts. \<open>SetString_Amount a\<close> is \<^verbatim>\<open>new(big.Float).SetString(a.String())\<close>,
  \<open>None\<close> when \<^verbatim>\<open>ok\<close> is false.
\<close>

type_synonym Amount = "int option"

definition SetString_Amount :: "Amount \<Rightarrow> Float option" where
  "SetString_Amount a =
     (case a of None \<Rightarrow> None | Some n \<Rightarrow> Some (SetString new_Float (Finite (of_int n))))"

text \<open>
  \<^verbatim>\<open>(*big.Int).Int64()\<close>: the low 64 bits of the magnitude as an \<^verbatim>\<open>int64\<close>, negated for a
  negative integer, with wrap-around.
\<close>

definition Int64 :: "int \<Rightarrow> int" where
  "Int64 x = (let v = (word_of_int \<bar>x\<bar> :: 64 word) in sint (if x < 0 then - v else v))"

text \<open>
  Modelled from the spec: \<^verbatim>\<open>Amount.Add\<close> and \<^verbatim>\<open>Amount.Sub\<close> (package \<^verbatim>\<open>types\<close>, not in the
  sources at hand) produce a new Amount, the sum and the difference.
\<close>

definition Amount_Add :: "Amount \<Rightarrow> Amount \<Rightarrow> Amount" where
  "Amount_Add a b = (case (a, b) of (Some x, Some y) \<Rightarrow> Some (x + y) | _ \<Rightarrow> None)"

definition Amount_Sub :: "Amount \<Rightarrow> Amount \<Rightarrow> Amount" where
  "Amount_Sub a b = (case (a, b) of (Some x, Some y) \<Rightarrow> Some (x - y) | _ \<Rightarrow> None)"

text \<open>
  \<^verbatim>\<open>types.Percentage\<close> wraps a \<^verbatim>\<open>*big.Float\<close> (the source passes \<^verbatim>\<open>validatorFee.Float\<close> where
  a \<^verbatim>\<open>*big.Float\<close> is expected and dereferences \<^verbatim>\<open>r.Weight.Float\<close>). A Percentage passed to a
  function is copied, the float it points to is not: the model keeps the floats in a heap
  and a Percentage is the address it holds, \<open>None\<close> for the nil pointer of the zero value
  \<^verbatim>\<open>types.Percentage{}\<close>.
\<close>

type_synonym Percentage = "nat option"

type_synonym heap = "nat \<Rightarrow> Float"

text \<open>
  Modelled from the spec: \<^verbatim>\<open>types.NewPercentage\<close> (not in the sources at hand) parses its
  text into a fresh \<^verbatim>\<open>big.Float\<close>; \<open>NewPercentage x\<close> is the content of that fresh float for
  a text denoting \<open>x\<close>.
\<close>

definition NewPercentage :: "fvalue \<Rightarrow> Float" where
  "NewPercentage x = SetString new_Float x"

section \<open>model/util/calculate.go\<close>

text \<open>
  \<^verbatim>\<open>CalculateWeight\<close>. The result is the content of the fresh float of the returned
  Percentage.
\<close>

definition CalculateWeight :: "Amount \<Rightarrow> Amount \<Rightarrow> Float result" where
  "CalculateWeight balance totalStakedAmount =
     (case SetString_Amount balance of
        None \<Rightarrow> Err (Error ''error with balance amount'')
      | Some w \<Rightarrow>
         (case totalStakedAmount of
            None \<Rightarrow> Panic
          | Some n \<Rightarrow>
              if Int64 n = 0 then Err (Error ''total staked amount can not be zero'')
              else
                (case SetString_Amount totalStakedAmount of
                   None \<Rightarrow> Err (Error ''error with total staked amount'')
                 | Some t \<Rightarrow>
                     (case Quo new_Float w t of
                        None \<Rightarrow> Panic
                      | Some q \<Rightarrow> Ok (NewPercentage (String q))))))"

text \<open>
  \<^verbatim>\<open>CalculateValidatorReward\<close>. \<^verbatim>\<open>validatorFee.Quo(validatorFee.Float, big.NewFloat(100))\<close>
  has the fee's \<^verbatim>\<open>*big.Float\<close> as receiver: it panics when that pointer is nil and otherwise
  writes the quotient into the float that the fee points to. The returned value is the one
  denoted by the text handed to \<^verbatim>\<open>types.NewAmount\<close>.
\<close>

definition CalculateValidatorReward ::
  "heap \<Rightarrow> Amount \<Rightarrow> Percentage \<Rightarrow> fvalue result \<times> heap" where
  "CalculateValidatorReward h blockReward validatorFee =
     (case SetString_Amount blockReward of
        None \<Rightarrow> (Err (Error ''error with block reward amount''), h)
      | Some vr \<Rightarrow>
          let ok = True in
          (case validatorFee of
             None \<Rightarrow> (Panic, h)
           | Some a \<Rightarrow>
               (case Quo (h a) (h a) (NewFloat 100) of
                  None \<Rightarrow> (Panic, h)
                | Some fee \<Rightarrow>
                    let h1 = h(a := fee) in
                    (case Mul vr vr fee of
                       None \<Rightarrow> (Panic, h1)
                     | Some vr1 \<Rightarrow>
                         if \<not> ok then (Err (Error ''error with validator reward amount''), h1)
                         else (Ok (String vr1), h1)))))"

text \<open>
  \<^verbatim>\<open>CalculateDelegatorReward\<close>. \<^verbatim>\<open>weight\<close> is a \<^verbatim>\<open>big.Float\<close> passed by value.
  \<^verbatim>\<open>remaining.Sub(big.NewFloat(100), validatorFee.Float)\<close> reads the fee's float and panics
  when the pointer is nil; \<^verbatim>\<open>validatorFee.Quo(remaining, big.NewFloat(100))\<close> writes into the
  float that the fee points to.
\<close>

definition CalculateDelegatorReward ::
  "heap \<Rightarrow> Float \<Rightarrow> Amount \<Rightarrow> Percentage \<Rightarrow> fvalue result \<times> heap" where
  "CalculateDelegatorReward h weight blockReward validatorFee =
     (case SetString_Amount blockReward of
        None \<Rightarrow> (Err (Error ''error with stake amount''), h)
      | Some br \<Rightarrow>
          let ok = True;
              remaining = NewFloat 0
          in
          (case validatorFee of
             None \<Rightarrow> (Panic, h)
           | Some a \<Rightarrow>
               (case Sub remaining (NewFloat 100) (h a) of
                  None \<Rightarrow> (Panic, h)
                | Some remaining1 \<Rightarrow>
                    (case Quo (h a) remaining1 (NewFloat 100) of
                       None \<Rightarrow> (Panic, h)
                     | Some fee \<Rightarrow>
                         let h1 = h(a := fee) in
                         (case Mul br br fee of
                            None \<Rightarrow> (Panic, h1)
                          | Some br1 \<Rightarrow>
                              if \<not> ok then (Err (Error ''error with stake amount''), h1)
                              else
                                (case Mul new_Float br1 weight of
                                   None \<Rightarrow> (Panic, h1)
                                 | Some res \<Rightarrow> (Ok (String res), h1)))))))"

section \<open>The domain records\<close>

record Block =
  Coinbase :: Amount
  TransactionsFees :: Amount
  SnarkJobsFees :: Amount
  Epoch :: int
  Slot :: int
  Supercharged :: bool
  Creator :: string

record ValidatorEpoch =
  ValidatorFee :: Percentage

record Ledger =
  ID :: string
  StakedAmount :: Amount

text \<open>
  A staking record. \<open>Weight\<close> is \<open>None\<close> while the Percentage holds no float (the source
  dereferences \<^verbatim>\<open>r.Weight.Float\<close>); the weight pass fills it with a fresh float, kept here by
  its content.
\<close>

record LedgerEntry =
  PublicKey :: string
  Balance :: Amount
  Weight :: "Float option"

datatype RewardOwnerType = Validator | Delegator

text \<open>
  A reward record. \<open>Reward\<close> is the value denoted by the text that the reward functions
  hand to \<^verbatim>\<open>types.NewAmount\<close>, \<open>None\<close> before it is set.
\<close>

record BlockReward =
  OwnerAccount :: string
  OwnerType :: RewardOwnerType
  Reward :: "fvalue option"

section \<open>The collaborators\<close>

text \<open>
  The store, by the answers it gives. A Go call returning \<^verbatim>\<open>(value, error)\<close> gives a pair, a
  nil error being \<open>None\<close>. \<^verbatim>\<open>FirstBlockOfEpoch\<close> returns a pointer that the source tests for
  nil. The epoch is passed as the integer whose decimal text the source passes.
\<close>

record Store =
  GetValidatorEpochs :: "int \<Rightarrow> string \<Rightarrow> ValidatorEpoch list \<times> error option"
  FindLedger :: "int \<Rightarrow> Ledger \<times> error option"
  LedgerRecords :: "string \<Rightarrow> LedgerEntry list \<times> error option"
  FirstBlockOfEpoch :: "int \<Rightarrow> Block option \<times> error option"
  Import :: "BlockReward list \<Rightarrow> error option"

text \<open>
  The functions of packages \<^verbatim>\<open>util\<close> and \<^verbatim>\<open>mapper\<close> that \<^verbatim>\<open>RewardCalculation\<close> calls and that are
  not in the sources at hand are parameters of the run. The two weighting functions mutate
  the records in place and return an error; here they return the records as they leave them.
\<close>

record 'w Deps =
  CalculateWeightsNonSupercharged :: "Amount \<Rightarrow> LedgerEntry list \<Rightarrow> LedgerEntry list result"
  CalculateSuperchargedWeighting :: "Block \<Rightarrow> 'w result"
  CalculateWeightsSupercharged :: "'w \<Rightarrow> LedgerEntry list \<Rightarrow> int \<Rightarrow> LedgerEntry list result"
  DelegatorBlockRewards :: "LedgerEntry list \<Rightarrow> Block \<Rightarrow> BlockReward list result"
  ValidatorBlockReward :: "Block \<Rightarrow> BlockReward result"

section \<open>indexing/reward\_calculation.go\<close>

text \<open>Lines 60 to 74: the weight pass, under the policy that \<^verbatim>\<open>block.Supercharged\<close> selects.\<close>

definition weight_pass ::
  "'w Deps \<Rightarrow> Block \<Rightarrow> Ledger \<Rightarrow> LedgerEntry list \<Rightarrow> int \<Rightarrow> LedgerEntry list result" where
  "weight_pass deps block ledger records firstSlotOfEpoch =
     (if \<not> Supercharged block
      then CalculateWeightsNonSupercharged deps (StakedAmount ledger) records
      else
        (case CalculateSuperchargedWeighting deps block of
           Err e \<Rightarrow> Err e
         | Panic \<Rightarrow> Panic
         | Ok superchargedWeighting \<Rightarrow>
             CalculateWeightsSupercharged deps superchargedWeighting records firstSlotOfEpoch))"

text \<open>
  Lines 76 to 79: the map from public key to weight. Dereferencing the float of a record
  without weight panics (\<open>None\<close>).
\<close>

fun recordsMap_of :: "(string \<rightharpoonup> Float) \<Rightarrow> LedgerEntry list \<Rightarrow> (string \<rightharpoonup> Float) option" where
  "recordsMap_of m [] = Some m"
| "recordsMap_of m (r # rs) =
     (case Weight r of
        None \<Rightarrow> None
      | Some w \<Rightarrow> recordsMap_of (m(PublicKey r \<mapsto> w)) rs)"

text \<open>
  Lines 85 to 97: the loop over the delegator reward records. Every iteration passes the
  same \<^verbatim>\<open>creatorFee\<close>, a copy of the Percentage that points to the same float.
\<close>

fun split_loop ::
  "heap \<Rightarrow> (string \<rightharpoonup> Float) \<Rightarrow> Amount \<Rightarrow> Percentage \<Rightarrow> BlockReward list
     \<Rightarrow> BlockReward list result \<times> heap" where
  "split_loop h recordsMap blockReward creatorFee [] = (Ok [], h)"
| "split_loop h recordsMap blockReward creatorFee (dbr # rest) =
     (case recordsMap (OwnerAccount dbr) of
        None \<Rightarrow> (Err (Error (''record is not found for '' @ OwnerAccount dbr)), h)
      | Some weight \<Rightarrow>
          (case CalculateDelegatorReward h weight blockReward creatorFee of
             (Err e, h1) \<Rightarrow> (Err e, h1)
           | (Panic, h1) \<Rightarrow> (Panic, h1)
           | (Ok res, h1) \<Rightarrow>
               (case split_loop h1 recordsMap blockReward creatorFee rest of
                  (Err e, h2) \<Rightarrow> (Err e, h2)
                | (Panic, h2) \<Rightarrow> (Panic, h2)
                | (Ok done, h2) \<Rightarrow> (Ok (dbr\<lparr>Reward := Some res\<rparr> # done), h2))))"

text \<open>
  Lines 99 to 116: the import of the delegator rewards, then the validator reward and its
  import. The second component of the result lists the batches handed to the store's
  \<^verbatim>\<open>Import\<close>, in order.
\<close>

definition persist ::
  "'w Deps \<Rightarrow> Store \<Rightarrow> heap \<Rightarrow> Block \<Rightarrow> Amount \<Rightarrow> Percentage \<Rightarrow> BlockReward list
     \<Rightarrow> unit result \<times> BlockReward list list \<times> heap" where
  "persist deps db h block blockReward creatorFee delegatorsBlockRewards =
     (case Import db delegatorsBlockRewards of
        Some e \<Rightarrow> (Err e, [delegatorsBlockRewards], h)
      | None \<Rightarrow>
          (case ValidatorBlockReward deps block of
             Err e \<Rightarrow> (Err e, [delegatorsBlockRewards], h)
           | Panic \<Rightarrow> (Panic, [delegatorsBlockRewards], h)
           | Ok validatorReward \<Rightarrow>
               (case CalculateValidatorReward h blockReward creatorFee of
                  (Err e, h1) \<Rightarrow> (Err e, [delegatorsBlockRewards], h1)
                | (Panic, h1) \<Rightarrow> (Panic, [delegatorsBlockRewards], h1)
                | (Ok reward, h1) \<Rightarrow>
                    (let batch = [validatorReward\<lparr>Reward := Some reward\<rparr>]
                     in (return_err (Import db batch), [delegatorsBlockRewards, batch], h1)))))"

text \<open>Lines 60 to 116: from the weight pass to the end.\<close>

definition distribute ::
  "'w Deps \<Rightarrow> Store \<Rightarrow> heap \<Rightarrow> Block \<Rightarrow> Amount \<Rightarrow> Percentage \<Rightarrow> Ledger \<Rightarrow> LedgerEntry list
     \<Rightarrow> int \<Rightarrow> unit result \<times> BlockReward list list \<times> heap" where
  "distribute deps db h block blockReward creatorFee ledger records firstSlotOfEpoch =
     (case weight_pass deps block ledger records firstSlotOfEpoch of
        Err e \<Rightarrow> (Err e, [], h)
      | Panic \<Rightarrow> (Panic, [], h)
      | Ok records1 \<Rightarrow>
          (case recordsMap_of Map.empty records1 of
             None \<Rightarrow> (Panic, [], h)
           | Some recordsMap \<Rightarrow>
               (case DelegatorBlockRewards deps records1 block of
                  Err e \<Rightarrow> (Err e, [], h)
                | Panic \<Rightarrow> (Panic, [], h)
                | Ok delegatorsBlockRewards \<Rightarrow>
                    (case split_loop h recordsMap blockReward creatorFee delegatorsBlockRewards of
                       (Err e, h1) \<Rightarrow> (Err e, [], h1)
                     | (Panic, h1) \<Rightarrow> (Panic, [], h1)
                     | (Ok rewards, h1) \<Rightarrow>
                         persist deps db h1 block blockReward creatorFee rewards))))"

text \<open>
  \<^verbatim>\<open>RewardCalculation\<close>, lines 17 to 58 and then \<open>distribute\<close>. The result is what the call
  returns (\<open>Ok ()\<close> for a nil error), the batches handed to \<^verbatim>\<open>Import\<close>, and the heap it leaves.
\<close>

definition RewardCalculation ::
  "'w Deps \<Rightarrow> Store \<Rightarrow> heap \<Rightarrow> Block \<Rightarrow> unit result \<times> BlockReward list list \<times> heap" where
  "RewardCalculation deps db h block =
     (if Coinbase block = None \<or> TransactionsFees block = None \<or> SnarkJobsFees block = None
      then (Ok (), [], h)
      else
        (case GetValidatorEpochs db (Epoch block) (Creator block) of (validatorEpochs, err) \<Rightarrow>
         if err \<noteq> None \<and> err \<noteq> Some ErrNotFound then (return_err err, [], h)
         else if length validatorEpochs = 0
         then (Err (Error ''validator fee for epoch not found''), [], h)
         else
           let creatorFee = ValidatorFee (hd validatorEpochs) in
           if err \<noteq> None then (return_err err, [], h)
           else
             let blockReward = Amount_Add (Coinbase block) (TransactionsFees block);
                 blockReward1 = Amount_Sub blockReward (SnarkJobsFees block)
             in
             (case FindLedger db (Epoch block) of (ledger, err1) \<Rightarrow>
              if err1 \<noteq> None \<and> err1 \<noteq> Some ErrNotFound then (return_err err1, [], h)
              else if err1 = Some ErrNotFound then (Ok (), [], h)
              else
                (case LedgerRecords db (ID ledger) of (records, err2) \<Rightarrow>
                 if err2 \<noteq> None \<and> err2 \<noteq> Some ErrNotFound then (return_err err2, [], h)
                 else
                   (case FirstBlockOfEpoch db (Epoch block) of (firstBlockOfEpoch, err3) \<Rightarrow>
                    if err3 \<noteq> None \<and> err3 \<noteq> Some ErrNotFound then (return_err err3, [], h)
                    else if err3 = None \<and> firstBlockOfEpoch = None
                    then (Err (Error ''first block of epoch is not found''), [], h)
                    else
                      (case firstBlockOfEpoch of
                         None \<Rightarrow> (Panic, [], h)
                       | Some first \<Rightarrow>
                           distribute deps db h block blockReward1 creatorFee ledger records
                             (Slot first)))))))"

section \<open>The absent functions, from the specification\<close>

text \<open>
  Modelled from the spec: \<^verbatim>\<open>util.CalculateWeightsNonSupercharged\<close> (not in the sources at
  hand) gives each record the weight of its own staked amount over the ledger's total, and
  stops at the first failure.
\<close>

fun CalculateWeightsNonSupercharged_spec :: "Amount \<Rightarrow> LedgerEntry list \<Rightarrow> LedgerEntry list result" where
  "CalculateWeightsNonSupercharged_spec stakedAmount [] = Ok []"
| "CalculateWeightsNonSupercharged_spec stakedAmount (r # rs) =
     (case CalculateWeight (Balance r) stakedAmount of
        Err e \<Rightarrow> Err e
      | Panic \<Rightarrow> Panic
      | Ok w \<Rightarrow>
          (case CalculateWeightsNonSupercharged_spec stakedAmount rs of
             Err e \<Rightarrow> Err e
           | Panic \<Rightarrow> Panic
           | Ok rs1 \<Rightarrow> Ok (r\<lparr>Weight := Some w\<rparr> # rs1)))"

text \<open>
  Modelled from the spec: \<^verbatim>\<open>mapper.DelegatorBlockRewards\<close> (not in the sources at hand) makes
  one delegator reward record for every staking record, owned by the record's public key.
\<close>

definition DelegatorBlockRewards_spec :: "LedgerEntry list \<Rightarrow> Block \<Rightarrow> BlockReward list result" where
  "DelegatorBlockRewards_spec records block =
     Ok (map (\<lambda>r. \<lparr>OwnerAccount = PublicKey r, OwnerType = Delegator, Reward = None\<rparr>) records)"

text \<open>
  Modelled from the spec: \<^verbatim>\<open>mapper.ValidatorBlockReward\<close> (not in the sources at hand) makes
  the validator reward record, owned by the block's creator.
\<close>

definition ValidatorBlockReward_spec :: "Block \<Rightarrow> BlockReward result" where
  "ValidatorBlockReward_spec block =
     Ok \<lparr>OwnerAccount = Creator block, OwnerType = Validator, Reward = None\<rparr>"

text \<open>
  The functions above, for a run of a block that is not supercharged. The supercharged
  policy is left open by the specification; its two functions are never called in such a
  run, and here they return an error.
\<close>

definition deps_spec :: "unit Deps" where
  "deps_spec =
     \<lparr>CalculateWeightsNonSupercharged = CalculateWeightsNonSupercharged_spec,
      CalculateSuperchargedWeighting = (\<lambda>block. Err (Error ''no supercharged policy'')),
      CalculateWeightsSupercharged = (\<lambda>w records slot. Err (Error ''no supercharged policy'')),
      DelegatorBlockRewards = DelegatorBlockRewards_spec,
      ValidatorBlockReward = ValidatorBlockReward_spec\<rparr>"

section \<open>The scenario of the specification\<close>

text \<open>
  Total staked 1000, records A with 600 and B with 400, block reward 100, fee 10 percent.
  The fee is the float at address 0 of the heap.
\<close>

definition heap0 :: heap where
  "heap0 = (\<lambda>a. NewPercentage (Finite 10))"

definition block0 :: Block where
  "block0 = \<lparr>Coinbase = Some 100, TransactionsFees = Some 0, SnarkJobsFees = Some 0,
     Epoch = 1, Slot = 7, Supercharged = False, Creator = ''V''\<rparr>"

definition records0 :: "LedgerEntry list" where
  "records0 = [\<lparr>PublicKey = ''A'', Balance = Some 600, Weight = None\<rparr>,
     \<lparr>PublicKey = ''B'', Balance = Some 400, Weight = None\<rparr>]"

definition store0 :: Store where
  "store0 =
     \<lparr>GetValidatorEpochs = (\<lambda>epoch creator. ([\<lparr>ValidatorFee = Some 0\<rparr>], None)),
      FindLedger = (\<lambda>epoch. (\<lparr>ID = ''L'', StakedAmount = Some 1000\<rparr>, None)),
      LedgerRecords = (\<lambda>ledger. (records0, None)),
      FirstBlockOfEpoch = (\<lambda>epoch. (Some (block0\<lparr>Slot := 1\<rparr>), None)),
      Import = (\<lambda>batch. None)\<rparr>"


definition store_import_fails :: Store where
  "store_import_fails = store0\<lparr>Import :=
     (\<lambda>batch. if list_ex (\<lambda>r. OwnerType r = Validator) batch
        then Some (Error ''import failed'') else None)\<rparr>"

definition store_records_absent :: Store where
  "store_records_absent = store0\<lparr>LedgerRecords := (\<lambda>ledger. ([], Some ErrNotFound))\<rparr>"

text \<open>
  \<open>rel_close eps y x\<close>: \<open>y\<close> differs from \<open>x\<close> by at most \<open>eps\<close> times the magnitude of \<open>x\<close>.
\<close>

definition rel_close :: "rat \<Rightarrow> rat \<Rightarrow> rat \<Rightarrow> bool" where
  "rel_close eps y x \<longleftrightarrow> \<bar>y - x\<bar> \<le> eps * \<bar>x\<bar>"

section \<open>Evaluation lemmas\<close>

lemma fee10:
  "NewPercentage (Finite 10)
     = \<lparr>fprec = 64, fval = Finite 10\<rparr>"
  by code_simp

lemma reward100:
  "SetString new_Float (Finite 100)
     = \<lparr>fprec = 64, fval = Finite 100\<rparr>"
  by code_simp

lemma weight_A:
  "CalculateWeight (Some 600) (Some 1000)
     = Ok \<lparr>fprec = 64, fval = Finite (5534023222112865485 / 9223372036854775808)\<rparr>"
  by code_simp

lemma weight_B:
  "CalculateWeight (Some 400) (Some 1000)
     = Ok \<lparr>fprec = 64, fval = Finite (14757395258967641293 / 36893488147419103232)\<rparr>"
  by code_simp

lemma weight_third:
  "CalculateWeight (Some 1) (Some 3)
     = Ok \<lparr>fprec = 64, fval = Finite (768614336327703217 / 2305843009213693952)\<rparr>"
  by code_simp

lemma remaining_step1:
  "Sub (NewFloat 0) (NewFloat 100) \<lparr>fprec = 64, fval = Finite 10\<rparr>
     = Some \<lparr>fprec = 53, fval = Finite 90\<rparr>"
  by code_simp

lemma fee_step1:
  "Quo \<lparr>fprec = 64, fval = Finite 10\<rparr> \<lparr>fprec = 53, fval = Finite 90\<rparr> (NewFloat 100)
     = Some \<lparr>fprec = 64, fval = Finite (8301034833169298227 / 9223372036854775808)\<rparr>"
  by code_simp

lemma net_step1:
  "Mul \<lparr>fprec = 64, fval = Finite 100\<rparr> \<lparr>fprec = 64, fval = Finite 100\<rparr> \<lparr>fprec = 64, fval = Finite (8301034833169298227 / 9223372036854775808)\<rparr>
     = Some \<lparr>fprec = 64, fval = Finite 90\<rparr>"
  by code_simp

lemma share_A:
  "Mul new_Float \<lparr>fprec = 64, fval = Finite 90\<rparr> \<lparr>fprec = 64, fval = Finite (5534023222112865485 / 9223372036854775808)\<rparr>
     = Some \<lparr>fprec = 64, fval = Finite (15564440312192434177 / 288230376151711744)\<rparr>"
  by code_simp

lemma text_A:
  "String \<lparr>fprec = 64, fval = Finite (15564440312192434177 / 288230376151711744)\<rparr>
     = Finite 54"
  by code_simp

lemma remaining_step2:
  "Sub (NewFloat 0) (NewFloat 100) \<lparr>fprec = 64, fval = Finite (8301034833169298227 / 9223372036854775808)\<rparr>
     = Some \<lparr>fprec = 53, fval = Finite (3486771274003251 / 35184372088832)\<rparr>"
  by code_simp

lemma fee_step2:
  "Quo \<lparr>fprec = 64, fval = Finite (8301034833169298227 / 9223372036854775808)\<rparr> \<lparr>fprec = 53, fval = Finite (3486771274003251 / 35184372088832)\<rparr> (NewFloat 100)
     = Some \<lparr>fprec = 64, fval = Finite (18280723377046164603 / 18446744073709551616)\<rparr>"
  by code_simp

lemma net_step2:
  "Mul \<lparr>fprec = 64, fval = Finite 100\<rparr> \<lparr>fprec = 64, fval = Finite 100\<rparr> \<lparr>fprec = 64, fval = Finite (18280723377046164603 / 18446744073709551616)\<rparr>
     = Some \<lparr>fprec = 64, fval = Finite (3486771274003251 / 35184372088832)\<rparr>"
  by code_simp

lemma share_B:
  "Mul new_Float \<lparr>fprec = 64, fval = Finite (3486771274003251 / 35184372088832)\<rparr> \<lparr>fprec = 64, fval = Finite (14757395258967641293 / 36893488147419103232)\<rparr>
     = Some \<lparr>fprec = 64, fval = Finite (11425452110653852877 / 288230376151711744)\<rparr>"
  by code_simp

lemma text_B:
  "String \<lparr>fprec = 64, fval = Finite (11425452110653852877 / 288230376151711744)\<rparr>
     = Finite (991 / 25)"
  by code_simp

lemma share_A_again:
  "Mul new_Float \<lparr>fprec = 64, fval = Finite (3486771274003251 / 35184372088832)\<rparr> \<lparr>fprec = 64, fval = Finite (5534023222112865485 / 9223372036854775808)\<rparr>
     = Some \<lparr>fprec = 64, fval = Finite (4284544541495194829 / 72057594037927936)\<rparr>"
  by code_simp

lemma text_A_again:
  "String \<lparr>fprec = 64, fval = Finite (4284544541495194829 / 72057594037927936)\<rparr>
     = Finite (2973 / 50)"
  by code_simp

lemma vfee_step3:
  "Quo \<lparr>fprec = 64, fval = Finite (18280723377046164603 / 18446744073709551616)\<rparr> \<lparr>fprec = 64, fval = Finite (18280723377046164603 / 18446744073709551616)\<rparr> (NewFloat 100)
     = Some \<lparr>fprec = 64, fval = Finite (5849831480654772673 / 590295810358705651712)\<rparr>"
  by code_simp

lemma vnet_step3:
  "Mul \<lparr>fprec = 64, fval = Finite 100\<rparr> \<lparr>fprec = 64, fval = Finite 100\<rparr> \<lparr>fprec = 64, fval = Finite (5849831480654772673 / 590295810358705651712)\<rparr>
     = Some \<lparr>fprec = 64, fval = Finite (18280723377046164603 / 18446744073709551616)\<rparr>"
  by code_simp

lemma vtext_step3:
  "String \<lparr>fprec = 64, fval = Finite (18280723377046164603 / 18446744073709551616)\<rparr>
     = Finite (991 / 1000)"
  by code_simp

lemma vfee_first:
  "Quo \<lparr>fprec = 64, fval = Finite 10\<rparr> \<lparr>fprec = 64, fval = Finite 10\<rparr> (NewFloat 100)
     = Some \<lparr>fprec = 64, fval = Finite (14757395258967641293 / 147573952589676412928)\<rparr>"
  by code_simp

lemma vnet_first:
  "Mul \<lparr>fprec = 64, fval = Finite 100\<rparr> \<lparr>fprec = 64, fval = Finite 100\<rparr> \<lparr>fprec = 64, fval = Finite (14757395258967641293 / 147573952589676412928)\<rparr>
     = Some \<lparr>fprec = 64, fval = Finite 10\<rparr>"
  by code_simp

lemma vtext_first:
  "String \<lparr>fprec = 64, fval = Finite 10\<rparr>
     = Finite 10"
  by code_simp

lemma vfee_second:
  "Quo \<lparr>fprec = 64, fval = Finite (14757395258967641293 / 147573952589676412928)\<rparr> \<lparr>fprec = 64, fval = Finite (14757395258967641293 / 147573952589676412928)\<rparr> (NewFloat 100)
     = Some \<lparr>fprec = 64, fval = Finite (2361183241434822607 / 2361183241434822606848)\<rparr>"
  by code_simp

lemma vnet_second:
  "Mul \<lparr>fprec = 64, fval = Finite 100\<rparr> \<lparr>fprec = 64, fval = Finite 100\<rparr> \<lparr>fprec = 64, fval = Finite (2361183241434822607 / 2361183241434822606848)\<rparr>
     = Some \<lparr>fprec = 64, fval = Finite (7378697629483820647 / 73786976294838206464)\<rparr>"
  by code_simp

lemma vtext_second:
  "String \<lparr>fprec = 64, fval = Finite (7378697629483820647 / 73786976294838206464)\<rparr>
     = Finite (1 / 10)"
  by code_simp

lemmas scenario_values =
  fee10 reward100 weight_A weight_B weight_third remaining_step1 fee_step1 net_step1 share_A text_A remaining_step2 fee_step2 net_step2 share_B text_B share_A_again text_A_again vfee_step3 vnet_step3 vtext_step3 vfee_first vnet_first vtext_first vfee_second vnet_second vtext_second

lemmas scenario_defs =
  RewardCalculation_def store0_def deps_spec_def block0_def records0_def
  distribute_def weight_pass_def persist_def heap0_def return_err_def
  Amount_Add_def Amount_Sub_def DelegatorBlockRewards_spec_def ValidatorBlockReward_spec_def
  CalculateDelegatorReward_def CalculateValidatorReward_def SetString_Amount_def Let_def

lemma scenario_run:
  "RewardCalculation deps_spec store0 heap0 block0 =
     (Ok (),
      [[\<lparr>OwnerAccount = ''A'', OwnerType = Delegator, Reward = Some (Finite 54)\<rparr>,
        \<lparr>OwnerAccount = ''B'', OwnerType = Delegator, Reward = Some (Finite (991 / 25))\<rparr>],
       [\<lparr>OwnerAccount = ''V'', OwnerType = Validator, Reward = Some (Finite (991 / 1000))\<rparr>]],
      heap0(0 := \<lparr>fprec = 64, fval = Finite (5849831480654772673 / 590295810358705651712)\<rparr>))"
  by (simp add: scenario_defs scenario_values)

lemma scenario_run_import_fails:
  "RewardCalculation deps_spec store_import_fails heap0 block0 =
     (Err (Error ''import failed''),
      [[\<lparr>OwnerAccount = ''A'', OwnerType = Delegator, Reward = Some (Finite 54)\<rparr>,
        \<lparr>OwnerAccount = ''B'', OwnerType = Delegator, Reward = Some (Finite (991 / 25))\<rparr>],
       [\<lparr>OwnerAccount = ''V'', OwnerType = Validator, Reward = Some (Finite (991 / 1000))\<rparr>]],
      heap0(0 := \<lparr>fprec = 64, fval = Finite (5849831480654772673 / 590295810358705651712)\<rparr>))"
  by (simp add: store_import_fails_def scenario_defs scenario_values)

lemma scenario_run_records_absent:
  "RewardCalculation deps_spec store_records_absent heap0 block0 =
     (Ok (),
      [[], [\<lparr>OwnerAccount = ''V'', OwnerType = Validator, Reward = Some (Finite 10)\<rparr>]],
      heap0(0 := \<lparr>fprec = 64, fval = Finite (14757395258967641293 / 147573952589676412928)\<rparr>))"
  by (simp add: store_records_absent_def scenario_defs scenario_values)

section \<open>Structure of the run\<close>

lemma persist_imports:
  "persist deps db h block br fee rewards = (out, imports, h') \<Longrightarrow> hd imports = rewards \<and> imports \<noteq> []"
  by (auto simp add: persist_def Let_def split: option.splits result.splits prod.splits)

lemma split_loop_rewards:
  "split_loop h m br fee dbrs = (Ok rewards, h1)
     \<Longrightarrow> length rewards = length dbrs \<and> (\<forall>r \<in> set rewards. Reward r \<noteq> None)"
proof (induction dbrs arbitrary: h rewards h1)
  case Nil
  then show ?case by simp
next
  case (Cons d ds)
  then show ?case
    by (fastforce split: option.splits result.splits prod.splits)
qed

lemma distribute_imports:
  assumes "distribute deps db h block br fee ledger records slot = (out, imports, h')"
    and "imports \<noteq> []"
  shows "\<exists>records1 recordsMap dbrs h1.
           weight_pass deps block ledger records slot = Ok records1
         \<and> recordsMap_of Map.empty records1 = Some recordsMap
         \<and> DelegatorBlockRewards deps records1 block = Ok dbrs
         \<and> split_loop h recordsMap br fee dbrs = (Ok (hd imports), h1)"
  using assms
  by (auto simp add: distribute_def split: option.splits result.splits prod.splits
      dest: persist_imports)

lemma RewardCalculation_imports:
  assumes "RewardCalculation deps db h block = (out, imports, h')"
    and "imports \<noteq> []"
  shows "\<exists>first.
           fst (FirstBlockOfEpoch db (Epoch block)) = Some first
         \<and> distribute deps db h block
              (Amount_Sub (Amount_Add (Coinbase block) (TransactionsFees block)) (SnarkJobsFees block))
              (ValidatorFee (hd (fst (GetValidatorEpochs db (Epoch block) (Creator block)))))
              (fst (FindLedger db (Epoch block)))
              (fst (LedgerRecords db (ID (fst (FindLedger db (Epoch block))))))
              (Slot first) = (out, imports, h')"
  using assms
  by (auto simp add: RewardCalculation_def Let_def split: if_splits option.splits prod.splits)

lemma persist_store:
  "Import db' = Import db \<Longrightarrow> persist deps db' = persist deps db"
  by (intro ext)
     (simp add: persist_def Let_def split: option.splits result.splits prod.splits)

lemma distribute_store:
  assumes "Import db' = Import db"
  shows "distribute deps db' h block br fee ledger records slot
     = distribute deps db h block br fee ledger records slot"
  unfolding distribute_def persist_store [OF assms] by (rule refl)

lemma distribute_slot:
  "\<not> Supercharged block \<Longrightarrow>
   distribute deps db h block br fee ledger records slot
     = distribute deps db h block br fee ledger records slot'"
  by (simp add: distribute_def weight_pass_def)

text \<open>
  When the first-block lookup reports NotFound and hands back a block value, the run goes on
  as for a found first block with that value; for a block that is not supercharged the slot
  is unused.
\<close>

lemma first_block_not_found_with_value:
  assumes "FirstBlockOfEpoch db (Epoch block) = (Some first, Some ErrNotFound)"
  shows "RewardCalculation deps db h block
           = RewardCalculation deps (db\<lparr>FirstBlockOfEpoch := (\<lambda>epoch. (Some first, None))\<rparr>) h block
       \<and> (\<not> Supercharged block \<longrightarrow>
            RewardCalculation deps db h block
              = RewardCalculation deps (db\<lparr>FirstBlockOfEpoch := (\<lambda>epoch. (Some other, None))\<rparr>) h block)"
proof -
  have a: "distribute deps (db\<lparr>FirstBlockOfEpoch := f\<rparr>) h block br fee ledger records slot
         = distribute deps db h block br fee ledger records slot" for f br fee ledger records slot
    by (rule distribute_store) simp
  show ?thesis
    using assms
    by (auto simp add: RewardCalculation_def Let_def a split: prod.splits
        intro: distribute_slot)
qed

text \<open>
  What holds of the two reward functions for every fee and weight: an error is returned
  exactly when the block reward is unparsable, never from the second test of \<^verbatim>\<open>ok\<close>; and
  with a fee that points to a finite float and a finite weight, a parsable block reward
  gives a finite value.
\<close>

lemma reward_error_iff_unparsable:
  "((\<exists>e. fst (CalculateValidatorReward h blockReward fee) = Err e)
      \<longleftrightarrow> SetString_Amount blockReward = None)
   \<and> fst (CalculateValidatorReward h blockReward fee) \<noteq> Err (Error ''error with validator reward amount'')
   \<and> ((\<exists>e. fst (CalculateDelegatorReward h weight blockReward fee) = Err e)
      \<longleftrightarrow> SetString_Amount blockReward = None)"
  by (cases blockReward)
     (auto simp add: CalculateValidatorReward_def CalculateDelegatorReward_def
        SetString_Amount_def Let_def split: option.splits)


lemma NewFloat_100: "NewFloat 100 = \<lparr>fprec = 53, fval = Finite 100\<rparr>"
  by code_simp

lemma NewFloat_0: "NewFloat 0 = \<lparr>fprec = 53, fval = Finite 0\<rparr>"
  by code_simp

lemma reward_succeeds_finite:
  assumes "fval (h a) = Finite x" "fval weight = Finite y"
  shows "(\<exists>v. fst (CalculateValidatorReward h (Some n) (Some a)) = Ok (Finite v))
       \<and> (\<exists>v. fst (CalculateDelegatorReward h weight (Some n) (Some a)) = Ok (Finite v))"
  using assms
  by (simp add: CalculateValidatorReward_def CalculateDelegatorReward_def SetString_Amount_def
      Let_def SetString_def new_Float_def NewFloat_100 NewFloat_0 String_def
      Quo_def Mul_def Sub_def zprec_def with_prec_def)

section \<open>Rounding errors\<close>

lemma ndigits_bounds:
  assumes "1 < b" "0 < n"
  shows "\<exists>k. ndigits b n = int k + 1 \<and> b ^ k \<le> n \<and> n < b ^ (k + 1)"
  using assms
proof (induction b n rule: ndigits.induct)
  case (1 b n)
  have e: "b * (n div b) + n mod b = n"
    by (rule mult_div_mod_eq)
  have m: "0 \<le> n mod b" "n mod b < b"
    using 1(2) by simp_all
  have nn: "0 \<le> n div b"
    using 1(2,3) by (simp add: pos_imp_zdiv_nonneg_iff)
  show ?case
  proof (cases "n div b = 0")
    case True
    with e m have "n < b" by simp
    moreover have "ndigits b n = 1"
      using 1(2,3) True by (simp add: ndigits.simps [of b n] ndigits.simps [of b 0])
    ultimately show ?thesis
      using 1(3) by (intro exI [of _ 0]) simp
  next
    case False
    with nn have pos: "0 < n div b" by simp
    have c: "\<not> (n \<le> 0 \<or> b \<le> 1)" using 1(2,3) by simp
    from 1(1) [OF c 1(2) pos] obtain k where k: "ndigits b (n div b) = int k + 1"
      "b ^ k \<le> n div b" "n div b < b ^ (k + 1)"
      by blast
    have "ndigits b n = int (k + 1) + 1"
      using 1(2,3) k(1) by (simp add: ndigits.simps [of b n])
    moreover have "b ^ (k + 1) \<le> n"
    proof -
      have "b * b ^ k \<le> b * (n div b)"
        using 1(2) k(2) by (simp add: mult_left_mono)
      also have "\<dots> \<le> n"
        using e m by linarith
      finally show ?thesis by simp
    qed
    moreover have "n < b ^ (k + 1 + 1)"
    proof -
      have "n < b * (n div b) + b"
        using e m by linarith
      also have "\<dots> = b * (n div b + 1)"
        by (simp add: distrib_left)
      also have "\<dots> \<le> b * b ^ (k + 1)"
        using 1(2) k(3) by (intro mult_left_mono) simp_all
      finally show ?thesis by simp
    qed
    ultimately show ?thesis by blast
  qed
qed

lemma round_half_even_error: "\<bar>of_int (round_half_even x) - x\<bar> \<le> 1 / 2"
proof -
  have "of_int \<lfloor>x\<rfloor> \<le> x" "x < of_int \<lfloor>x\<rfloor> + 1"
    by linarith+
  then show ?thesis
    by (auto simp add: round_half_even_def Let_def abs_le_iff)
qed

lemma ilog_lower:
  assumes "1 < b" "0 < x"
  shows "power_int (of_int b :: rat) (ilog b x) \<le> x"
proof -
  obtain p q where pq: "quotient_of x = (p, q)" by (cases "quotient_of x")
  then have q: "0 < q" and x: "x = of_int p / of_int q"
    by (simp_all add: quotient_of_denom_pos quotient_of_div)
  with assms(2) have p: "0 < p"
    by (simp add: zero_less_divide_iff)
  from ndigits_bounds [OF assms(1) p] obtain kp where
    kp: "ndigits b p = int kp + 1" "b ^ kp \<le> p" by blast
  from ndigits_bounds [OF assms(1) q] obtain kq where
    kq: "ndigits b q = int kq + 1" "q < b ^ (kq + 1)" by blast
  let ?B = "of_int b :: rat"
  have B: "0 < ?B" using assms(1) by simp
  show ?thesis
  proof (cases "power_int ?B (int kp - int kq) \<le> x")
    case True
    then show ?thesis
      using pq kp(1) kq(1) by (simp add: ilog_def)
  next
    case False
    then have i: "ilog b x = int kp - int (kq + 1)"
      using pq kp(1) kq(1) by (simp add: ilog_def)
    have "power_int ?B (int kp - int (kq + 1))
            = power_int ?B (int kp) / power_int ?B (int (kq + 1))"
      using B by (subst power_int_diff) simp_all
    also have "\<dots> = ?B ^ kp / ?B ^ (kq + 1)"
      by (simp only: power_int_of_nat)
    also have "\<dots> \<le> of_int p / ?B ^ (kq + 1)"
    proof -
      have "?B ^ kp = of_int (b ^ kp)" by simp
      also have "\<dots> \<le> of_int p" using kp(2) by (simp only: of_int_le_iff)
      finally show ?thesis using B by (simp add: divide_right_mono)
    qed
    also have "\<dots> \<le> of_int p / of_int q"
    proof -
      have "(of_int q :: rat) \<le> of_int (b ^ (kq + 1))"
        using kq(2) by (simp only: of_int_le_iff)
      then have "(of_int q :: rat) \<le> ?B ^ (kq + 1)" by simp
      then show ?thesis
        using p q by (intro divide_left_mono) (simp_all add: B)
    qed
    finally show ?thesis using i x by simp
  qed
qed

lemma round_sig_error:
  assumes "1 < b" "0 < n"
  shows "\<bar>round_sig b n x - x\<bar> \<le> \<bar>x\<bar> * power_int (of_int b) (1 - int n) / 2"
proof (cases "x = 0")
  case True
  then show ?thesis by (simp add: round_sig_def)
next
  case False
  let ?B = "of_int b :: rat"
  define e where "e = ilog b \<bar>x\<bar> + 1 - int n"
  define u where "u = power_int ?B e"
  define r where "r = round_half_even (\<bar>x\<bar> / u)"
  have B: "0 < ?B" using assms(1) by simp
  have u: "0 < u" using B by (simp add: u_def)
  have rs: "round_sig b n x = sgn x * of_int r * u"
    using False assms(2) by (simp add: round_sig_def Let_def e_def u_def r_def)
  have "\<bar>round_sig b n x - x\<bar> = \<bar>sgn x * (of_int r * u - \<bar>x\<bar>)\<bar>"
    by (simp add: rs right_diff_distrib mult.assoc mult_sgn_abs)
  also have "\<dots> = \<bar>of_int r * u - \<bar>x\<bar>\<bar>"
    using False by (simp add: abs_mult)
  also have "\<dots> = \<bar>of_int r - \<bar>x\<bar> / u\<bar> * u"
  proof -
    have "of_int r * u - \<bar>x\<bar> = (of_int r - \<bar>x\<bar> / u) * u"
      using u by (simp add: left_diff_distrib)
    then show ?thesis using u by (simp add: abs_mult)
  qed
  also have "\<dots> \<le> 1 / 2 * u"
    using u round_half_even_error [of "\<bar>x\<bar> / u"] by (intro mult_right_mono) (simp_all add: r_def)
  also have "\<dots> \<le> \<bar>x\<bar> * power_int ?B (1 - int n) / 2"
  proof -
    have "u = power_int ?B (ilog b \<bar>x\<bar>) * power_int ?B (1 - int n)"
      using B by (simp add: u_def e_def power_int_add [symmetric] algebra_simps)
    also have "\<dots> \<le> \<bar>x\<bar> * power_int ?B (1 - int n)"
      using ilog_lower [OF assms(1), of "\<bar>x\<bar>"] False B
      by (intro mult_right_mono) simp_all
    finally show ?thesis by simp
  qed
  finally show ?thesis .
qed

lemma rel_close_trans:
  assumes "rel_close e1 y x" "rel_close e2 z y" "0 \<le> e2"
  shows "rel_close (e1 + e2 + e1 * e2) z x"
proof -
  have "\<bar>y\<bar> \<le> \<bar>x\<bar> + \<bar>y - x\<bar>" by simp
  also have "\<dots> \<le> \<bar>x\<bar> + e1 * \<bar>x\<bar>" using assms(1) by (simp add: rel_close_def)
  finally have y: "\<bar>y\<bar> \<le> (1 + e1) * \<bar>x\<bar>" by (simp add: algebra_simps)
  have "\<bar>z - x\<bar> \<le> \<bar>z - y\<bar> + \<bar>y - x\<bar>" by simp
  also have "\<dots> \<le> e2 * \<bar>y\<bar> + e1 * \<bar>x\<bar>"
    using assms(1,2) by (simp add: rel_close_def add_mono)
  also have "\<dots> \<le> e2 * ((1 + e1) * \<bar>x\<bar>) + e1 * \<bar>x\<bar>"
    using y assms(3) by (simp add: mult_left_mono)
  also have "\<dots> = (e1 + e2 + e1 * e2) * \<bar>x\<bar>" by (simp add: algebra_simps)
  finally show ?thesis by (simp add: rel_close_def)
qed

lemma rel_close_divide:
  assumes "rel_close e1 a x" "rel_close e2 c y" "0 \<le> e1" "0 \<le> e2" "e2 < 1" "y \<noteq> 0"
  shows "rel_close ((e1 + e2) / (1 - e2)) (a / c) (x / y)"
proof -
  have "\<bar>y\<bar> \<le> \<bar>c\<bar> + \<bar>c - y\<bar>" by simp
  also have "\<dots> \<le> \<bar>c\<bar> + e2 * \<bar>y\<bar>" using assms(2) by (simp add: rel_close_def)
  finally have c: "(1 - e2) * \<bar>y\<bar> \<le> \<bar>c\<bar>" by (simp add: algebra_simps)
  have ypos: "0 < \<bar>y\<bar>" using assms(6) by simp
  have d: "0 < (1 - e2) * \<bar>y\<bar>" using assms(5) ypos by simp
  with c have cpos: "0 < \<bar>c\<bar>" by linarith
  then have cne: "c \<noteq> 0" by auto
  have "a / c - x / y = ((a - x) * y - x * (c - y)) / (c * y)"
    using cne assms(6) by (simp add: field_simps)
  then have "\<bar>a / c - x / y\<bar> = \<bar>(a - x) * y - x * (c - y)\<bar> / (\<bar>c\<bar> * \<bar>y\<bar>)"
    by (simp add: abs_mult)
  also have "\<dots> \<le> (\<bar>a - x\<bar> * \<bar>y\<bar> + \<bar>x\<bar> * \<bar>c - y\<bar>) / (\<bar>c\<bar> * \<bar>y\<bar>)"
  proof -
    have "\<bar>(a - x) * y - x * (c - y)\<bar> \<le> \<bar>(a - x) * y\<bar> + \<bar>x * (c - y)\<bar>"
      by (rule abs_triangle_ineq4)
    then show ?thesis
      using cpos ypos by (simp add: abs_mult divide_right_mono)
  qed
  also have "\<dots> \<le> (e1 * \<bar>x\<bar> * \<bar>y\<bar> + \<bar>x\<bar> * (e2 * \<bar>y\<bar>)) / (\<bar>c\<bar> * \<bar>y\<bar>)"
  proof -
    have "\<bar>a - x\<bar> * \<bar>y\<bar> \<le> e1 * \<bar>x\<bar> * \<bar>y\<bar>"
      using assms(1) by (simp add: rel_close_def mult_right_mono)
    moreover have "\<bar>x\<bar> * \<bar>c - y\<bar> \<le> \<bar>x\<bar> * (e2 * \<bar>y\<bar>)"
      using assms(2) by (simp add: rel_close_def mult_left_mono)
    ultimately show ?thesis
      using cpos ypos by (intro divide_right_mono add_mono) simp_all
  qed
  also have "\<dots> = (e1 + e2) * \<bar>x\<bar> / \<bar>c\<bar>"
    using ypos cpos by (simp add: field_simps)
  also have "\<dots> \<le> (e1 + e2) * \<bar>x\<bar> / ((1 - e2) * \<bar>y\<bar>)"
    using c d assms(3,4) by (intro divide_left_mono) (simp_all add: cpos)
  also have "\<dots> = (e1 + e2) / (1 - e2) * \<bar>x / y\<bar>"
    by (simp add: abs_divide)
  finally show ?thesis by (simp add: rel_close_def)
qed

lemma rel_close_mono: "rel_close e y x \<Longrightarrow> e \<le> e' \<Longrightarrow> rel_close e' y x"
  unfolding rel_close_def by (meson abs_ge_zero mult_right_mono order_trans)

lemma rel_close_round2: "rel_close (1 / 2 ^ 64) (round_sig 2 64 x) x"
proof -
  have "power_int (of_int 2 :: rat) (1 - int 64) / 2 = 1 / 2 ^ 64"
    by (simp add: power_int_def power_divide)
  with round_sig_error [of 2 64 x] show ?thesis
    by (simp add: rel_close_def mult.commute)
qed

lemma rel_close_round10: "rel_close (1 / (2 * 10 ^ 9)) (round_sig 10 10 x) x"
proof -
  have "power_int (of_int 10 :: rat) (1 - int 10) / 2 = 1 / (2 * 10 ^ 9)"
    by (simp add: power_int_def power_divide)
  with round_sig_error [of 10 10 x] show ?thesis
    by (simp add: rel_close_def mult.commute)
qed

lemma Int64_zero: "Int64 0 = 0"
  by (simp add: Int64_def)

lemma round_sig_nonzero:
  assumes "x \<noteq> 0"
  shows "round_sig 2 64 x \<noteq> 0"
proof
  assume "round_sig 2 64 x = 0"
  with rel_close_round2 [of x] have "\<bar>x\<bar> \<le> 1 / 2 ^ 64 * \<bar>x\<bar>"
    by (simp add: rel_close_def)
  moreover have "0 < \<bar>x\<bar>" using assms by simp
  ultimately show False by simp
qed

lemma CalculateWeight_value:
  assumes "Int64 t \<noteq> 0"
  shows "CalculateWeight (Some b) (Some t) =
     Ok \<lparr>fprec = 64,
         fval = Finite (round_sig 2 64 (round_sig 10 10 (round_sig 2 64
                  (round_sig 2 64 (of_int b) / round_sig 2 64 (of_int t)))))\<rparr>"
proof -
  from assms have "t \<noteq> 0"
    using Int64_zero by auto
  then have "round_sig 2 64 (of_int t) \<noteq> 0"
    by (intro round_sig_nonzero) simp
  with assms show ?thesis
    by (simp add: CalculateWeight_def SetString_Amount_def SetString_def new_Float_def
        NewPercentage_def String_def Quo_def zprec_def with_prec_def)
qed

lemma Int64_eq_0_iff: "Int64 x = 0 \<longleftrightarrow> 2 ^ 64 dvd x"
proof -
  have "Int64 x = 0 \<longleftrightarrow> (word_of_int \<bar>x\<bar> :: 64 word) = 0"
    by (simp add: Int64_def Let_def signed_eq_0_iff)
  also have "\<dots> \<longleftrightarrow> 2 ^ 64 dvd \<bar>x\<bar>"
    by (simp add: word_of_int_eq_0_iff)
  finally show ?thesis by simp
qed

lemma CalculateWeight_Err_iff:
  "(\<exists>e. CalculateWeight balance totalStakedAmount = Err e)
     \<longleftrightarrow> balance = None \<or> (\<exists>n. totalStakedAmount = Some n \<and> 2 ^ 64 dvd n)"
  by (cases balance; cases totalStakedAmount)
     (auto simp add: CalculateWeight_def SetString_Amount_def Int64_eq_0_iff
        split: option.splits)

section \<open>The claims\<close>

text \<open>
  Claim C1 says that the validator reward and the delegator rewards of a run add up to the
  block reward, and that the scenario yields 10, 54 and 36. The run of the scenario yields
  54 for A, 39.64 for B and 0.991 for the validator, which add up to 94.631: every call of
  \<^verbatim>\<open>CalculateDelegatorReward\<close> overwrites the fee that the next call reads.
\<close>

theorem scenario_rewards_not_conserved:
  "fst (RewardCalculation deps_spec store0 heap0 block0) = Ok ()
   \<and> fst (snd (RewardCalculation deps_spec store0 heap0 block0)) =
       [[\<lparr>OwnerAccount = ''A'', OwnerType = Delegator, Reward = Some (Finite 54)\<rparr>,
         \<lparr>OwnerAccount = ''B'', OwnerType = Delegator, Reward = Some (Finite (991 / 25))\<rparr>],
        [\<lparr>OwnerAccount = ''V'', OwnerType = Validator, Reward = Some (Finite (991 / 1000))\<rparr>]]
   \<and> (54 :: rat) + 991 / 25 + 991 / 1000 \<noteq> 100"
  by (simp add: scenario_run)

text \<open>
  Claim C2 says that neither reward function modifies its fee argument, so that two calls in
  succession return the same result. With a fee of 10 and a block reward of 100, the first
  call of \<^verbatim>\<open>CalculateValidatorReward\<close> returns 10 and leaves the fee changed, and the second
  returns 0.1; the first call of \<^verbatim>\<open>CalculateDelegatorReward\<close> with weight 0.6 returns 54 and
  the second 59.46.
\<close>

theorem reward_functions_modify_fee:
  "fst (CalculateValidatorReward heap0 (Some 100) (Some 0)) = Ok (Finite 10)
   \<and> fval (snd (CalculateValidatorReward heap0 (Some 100) (Some 0)) 0) \<noteq> fval (heap0 0)
   \<and> fst (CalculateValidatorReward (snd (CalculateValidatorReward heap0 (Some 100) (Some 0)))
            (Some 100) (Some 0))
        = Ok (Finite (1 / 10))
   \<and> fst (CalculateDelegatorReward heap0
            \<lparr>fprec = 64, fval = Finite (5534023222112865485 / 9223372036854775808)\<rparr> (Some 100) (Some 0)) = Ok (Finite 54)
   \<and> fval (snd (CalculateDelegatorReward heap0
            \<lparr>fprec = 64, fval = Finite (5534023222112865485 / 9223372036854775808)\<rparr> (Some 100) (Some 0)) 0)
        \<noteq> fval (heap0 0)
   \<and> fst (CalculateDelegatorReward
            (snd (CalculateDelegatorReward heap0
               \<lparr>fprec = 64, fval = Finite (5534023222112865485 / 9223372036854775808)\<rparr> (Some 100) (Some 0)))
            \<lparr>fprec = 64, fval = Finite (5534023222112865485 / 9223372036854775808)\<rparr> (Some 100) (Some 0))
        = Ok (Finite (2973 / 50))"
  by (simp add: CalculateValidatorReward_def CalculateDelegatorReward_def SetString_Amount_def
      Let_def heap0_def scenario_values)


text \<open>
  Claim C4, as the code has it. Whenever the run hands anything to the store's import, the
  weight pass has succeeded and a delegator reward has been computed for every delegator
  reward record, and the first batch is that list of delegator rewards. So a run that fails
  before or during the delegator split has imported nothing. The validator reward is
  computed and imported after the delegator batch.
\<close>

theorem import_only_after_delegator_split:
  assumes "RewardCalculation deps db h block = (out, imports, h')"
    and "imports \<noteq> []"
  shows "\<exists>first records1 recordsMap dbrs h1.
           fst (FirstBlockOfEpoch db (Epoch block)) = Some first
         \<and> weight_pass deps block (fst (FindLedger db (Epoch block)))
              (fst (LedgerRecords db (ID (fst (FindLedger db (Epoch block)))))) (Slot first)
             = Ok records1
         \<and> recordsMap_of Map.empty records1 = Some recordsMap
         \<and> DelegatorBlockRewards deps records1 block = Ok dbrs
         \<and> split_loop h recordsMap
              (Amount_Sub (Amount_Add (Coinbase block) (TransactionsFees block)) (SnarkJobsFees block))
              (ValidatorFee (hd (fst (GetValidatorEpochs db (Epoch block) (Creator block)))))
              dbrs = (Ok (hd imports), h1)
         \<and> length (hd imports) = length dbrs
         \<and> (\<forall>r \<in> set (hd imports). Reward r \<noteq> None)"
proof -
  from RewardCalculation_imports [OF assms] obtain first where
    f: "fst (FirstBlockOfEpoch db (Epoch block)) = Some first"
    and d: "distribute deps db h block
              (Amount_Sub (Amount_Add (Coinbase block) (TransactionsFees block)) (SnarkJobsFees block))
              (ValidatorFee (hd (fst (GetValidatorEpochs db (Epoch block) (Creator block)))))
              (fst (FindLedger db (Epoch block)))
              (fst (LedgerRecords db (ID (fst (FindLedger db (Epoch block))))))
              (Slot first) = (out, imports, h')"
    by blast
  from distribute_imports [OF d assms(2)] obtain records1 recordsMap dbrs h1 where
    w: "weight_pass deps block (fst (FindLedger db (Epoch block)))
          (fst (LedgerRecords db (ID (fst (FindLedger db (Epoch block)))))) (Slot first) = Ok records1"
    and m: "recordsMap_of Map.empty records1 = Some recordsMap"
    and b: "DelegatorBlockRewards deps records1 block = Ok dbrs"
    and s: "split_loop h recordsMap
              (Amount_Sub (Amount_Add (Coinbase block) (TransactionsFees block)) (SnarkJobsFees block))
              (ValidatorFee (hd (fst (GetValidatorEpochs db (Epoch block) (Creator block)))))
              dbrs = (Ok (hd imports), h1)"
    by blast
  from split_loop_rewards [OF s] f w m b s show ?thesis by blast
qed

text \<open>
  Claim C4 as written fails: when the store refuses the validator's batch, the run ends in
  an error after the delegator rewards have been imported with success.
\<close>

theorem partial_persistence_counterexample:
  "fst (RewardCalculation deps_spec store_import_fails heap0 block0) = Err (Error ''import failed'')
   \<and> fst (snd (RewardCalculation deps_spec store_import_fails heap0 block0)) =
       [[\<lparr>OwnerAccount = ''A'', OwnerType = Delegator, Reward = Some (Finite 54)\<rparr>,
         \<lparr>OwnerAccount = ''B'', OwnerType = Delegator, Reward = Some (Finite (991 / 25))\<rparr>],
        [\<lparr>OwnerAccount = ''V'', OwnerType = Validator, Reward = Some (Finite (991 / 1000))\<rparr>]]
   \<and> Import store_import_fails
        [\<lparr>OwnerAccount = ''A'', OwnerType = Delegator, Reward = Some (Finite 54)\<rparr>,
         \<lparr>OwnerAccount = ''B'', OwnerType = Delegator, Reward = Some (Finite (991 / 25))\<rparr>] = None"
  by (simp add: scenario_run_import_fails) (simp add: store_import_fails_def)

text \<open>The statement of C4 as the code has it, at the run whose second import fails.\<close>

theorem import_only_after_delegator_split_witness:
  "RewardCalculation deps_spec store_import_fails heap0 block0 =
     (Err (Error ''import failed''),
      [[\<lparr>OwnerAccount = ''A'', OwnerType = Delegator, Reward = Some (Finite 54)\<rparr>,
        \<lparr>OwnerAccount = ''B'', OwnerType = Delegator, Reward = Some (Finite (991 / 25))\<rparr>],
       [\<lparr>OwnerAccount = ''V'', OwnerType = Validator, Reward = Some (Finite (991 / 1000))\<rparr>]],
      heap0(0 := \<lparr>fprec = 64, fval = Finite (5849831480654772673 / 590295810358705651712)\<rparr>))
   \<and> (\<exists>first records1 recordsMap dbrs h1.
           fst (FirstBlockOfEpoch store_import_fails (Epoch block0)) = Some first
         \<and> weight_pass deps_spec block0 (fst (FindLedger store_import_fails (Epoch block0)))
              (fst (LedgerRecords store_import_fails
                 (ID (fst (FindLedger store_import_fails (Epoch block0)))))) (Slot first)
             = Ok records1
         \<and> recordsMap_of Map.empty records1 = Some recordsMap
         \<and> DelegatorBlockRewards deps_spec records1 block0 = Ok dbrs
         \<and> split_loop heap0 recordsMap
              (Amount_Sub (Amount_Add (Coinbase block0) (TransactionsFees block0)) (SnarkJobsFees block0))
              (ValidatorFee (hd (fst (GetValidatorEpochs store_import_fails (Epoch block0) (Creator block0)))))
              dbrs
             = (Ok [\<lparr>OwnerAccount = ''A'', OwnerType = Delegator, Reward = Some (Finite 54)\<rparr>,
                    \<lparr>OwnerAccount = ''B'', OwnerType = Delegator, Reward = Some (Finite (991 / 25))\<rparr>], h1)
         \<and> length [\<lparr>OwnerAccount = ''A'', OwnerType = Delegator, Reward = Some (Finite 54)\<rparr>,
                    \<lparr>OwnerAccount = ''B'', OwnerType = Delegator, Reward = Some (Finite (991 / 25))\<rparr>]
             = length dbrs
         \<and> (\<forall>r \<in> set [\<lparr>OwnerAccount = ''A'', OwnerType = Delegator, Reward = Some (Finite 54)\<rparr>,
                    \<lparr>OwnerAccount = ''B'', OwnerType = Delegator, Reward = Some (Finite (991 / 25))\<rparr>]. Reward r \<noteq> None))"
proof -
  have ne: "[[\<lparr>OwnerAccount = ''A'', OwnerType = Delegator, Reward = Some (Finite 54)\<rparr>,
        \<lparr>OwnerAccount = ''B'', OwnerType = Delegator, Reward = Some (Finite (991 / 25))\<rparr>],
       [\<lparr>OwnerAccount = ''V'', OwnerType = Validator, Reward = Some (Finite (991 / 1000))\<rparr>]] \<noteq> []"
    by simp
  from import_only_after_delegator_split [OF scenario_run_import_fails ne]
  show ?thesis
    unfolding list.sel using scenario_run_import_fails by blast
qed

text \<open>
  Claim C5. For every block in which at least one of Coinbase, TransactionsFees or
  SnarkJobsFees is absent, the run returns success at once, hands nothing to the store's
  import and leaves the heap as it was.
\<close>

theorem absent_component_no_op:
  assumes "Coinbase block = None \<or> TransactionsFees block = None \<or> SnarkJobsFees block = None"
  shows "RewardCalculation deps db h block = (Ok (), [], h)"
  using assms by (simp add: RewardCalculation_def)

text \<open>The scenario's block without its snark fees.\<close>

theorem absent_component_no_op_witness:
  "(Coinbase (block0\<lparr>SnarkJobsFees := None\<rparr>) = None
      \<or> TransactionsFees (block0\<lparr>SnarkJobsFees := None\<rparr>) = None
      \<or> SnarkJobsFees (block0\<lparr>SnarkJobsFees := None\<rparr>) = None)
   \<and> RewardCalculation deps_spec store0 heap0 (block0\<lparr>SnarkJobsFees := None\<rparr>) = (Ok (), [], heap0)"
  using absent_component_no_op [of "block0\<lparr>SnarkJobsFees := None\<rparr>" deps_spec store0 heap0]
  by (simp add: block0_def)

text \<open>
  Claim C6. For every block with all reward components present: if the validator fee is
  found and the store reports NotFound for the epoch's staking ledger, the run returns
  success with no import; if the store reports NotFound or an empty result for the
  validator's fee, the run returns the error "validator fee for epoch not found" with no
  import.
\<close>

theorem ledger_absent_no_op_fee_absent_error:
  assumes "Coinbase block \<noteq> None" "TransactionsFees block \<noteq> None" "SnarkJobsFees block \<noteq> None"
  shows "(GetValidatorEpochs db (Epoch block) (Creator block) = (ve # ves, None)
           \<and> FindLedger db (Epoch block) = (ledger, Some ErrNotFound)
          \<longrightarrow> RewardCalculation deps db h block = (Ok (), [], h))
       \<and> ((GetValidatorEpochs db (Epoch block) (Creator block) = ([], Some ErrNotFound)
            \<or> GetValidatorEpochs db (Epoch block) (Creator block) = ([], None))
          \<longrightarrow> RewardCalculation deps db h block
                = (Err (Error ''validator fee for epoch not found''), [], h))"
  using assms by (auto simp add: RewardCalculation_def)

text \<open>The scenario with the ledger absent, and with the fee absent in both ways.\<close>

theorem ledger_absent_no_op_fee_absent_error_witness:
  "Coinbase block0 \<noteq> None \<and> TransactionsFees block0 \<noteq> None \<and> SnarkJobsFees block0 \<noteq> None
   \<and> RewardCalculation deps_spec
        (store0\<lparr>FindLedger := (\<lambda>epoch. (\<lparr>ID = [], StakedAmount = None\<rparr>, Some ErrNotFound))\<rparr>)
        heap0 block0 = (Ok (), [], heap0)
   \<and> RewardCalculation deps_spec
        (store0\<lparr>GetValidatorEpochs := (\<lambda>epoch creator. ([], Some ErrNotFound))\<rparr>)
        heap0 block0 = (Err (Error ''validator fee for epoch not found''), [], heap0)
   \<and> RewardCalculation deps_spec
        (store0\<lparr>GetValidatorEpochs := (\<lambda>epoch creator. ([], None))\<rparr>)
        heap0 block0 = (Err (Error ''validator fee for epoch not found''), [], heap0)"
proof -
  have p: "Coinbase block0 \<noteq> None" "TransactionsFees block0 \<noteq> None" "SnarkJobsFees block0 \<noteq> None"
    by (simp_all add: block0_def)
  from ledger_absent_no_op_fee_absent_error [OF p,
      of "store0\<lparr>FindLedger := (\<lambda>epoch. (\<lparr>ID = [], StakedAmount = None\<rparr>, Some ErrNotFound))\<rparr>"
         "\<lparr>ValidatorFee = Some 0\<rparr>" "[]" "\<lparr>ID = [], StakedAmount = None\<rparr>" deps_spec heap0]
  have a: "RewardCalculation deps_spec
        (store0\<lparr>FindLedger := (\<lambda>epoch. (\<lparr>ID = [], StakedAmount = None\<rparr>, Some ErrNotFound))\<rparr>)
        heap0 block0 = (Ok (), [], heap0)"
    by (simp add: store0_def)
  from ledger_absent_no_op_fee_absent_error [OF p,
      of "store0\<lparr>GetValidatorEpochs := (\<lambda>epoch creator. ([], Some ErrNotFound))\<rparr>"
         _ _ _ deps_spec heap0]
  have b: "RewardCalculation deps_spec
        (store0\<lparr>GetValidatorEpochs := (\<lambda>epoch creator. ([], Some ErrNotFound))\<rparr>)
        heap0 block0 = (Err (Error ''validator fee for epoch not found''), [], heap0)"
    by simp
  from ledger_absent_no_op_fee_absent_error [OF p,
      of "store0\<lparr>GetValidatorEpochs := (\<lambda>epoch creator. ([], None))\<rparr>"
         _ _ _ deps_spec heap0]
  have c: "RewardCalculation deps_spec
        (store0\<lparr>GetValidatorEpochs := (\<lambda>epoch creator. ([], None))\<rparr>)
        heap0 block0 = (Err (Error ''validator fee for epoch not found''), [], heap0)"
    by simp
  from p a b c show ?thesis by blast
qed

text \<open>
  Claim C7 says that \<^verbatim>\<open>CalculateWeight\<close> fails exactly when the balance is unparsable or the
  total is zero. The zero test reads \<^verbatim>\<open>Int64()\<close>, the low 64 bits: with the total \<open>2 ^ 64\<close>,
  which is not zero, the call returns the error "total staked amount can not be zero".
\<close>

theorem weight_fails_on_nonzero_total:
  "CalculateWeight (Some 1) (Some 18446744073709551616)
     = Err (Error ''total staked amount can not be zero'')"
  by code_simp

text \<open>
  Claim C8, as the code has it. For every parsable balance and every total whose
  \<^verbatim>\<open>Int64()\<close> is not zero, \<^verbatim>\<open>CalculateWeight\<close> returns a finite float of 64 bits of
  mantissa that differs from the exact quotient by at most one part in \<open>10 ^ 9\<close> of it: both
  operands and the quotient are rounded to 64 bits, and the quotient passes through a text
  of 10 significant decimal digits.
\<close>

theorem CalculateWeight_relative_error:
  assumes "Int64 t \<noteq> 0"
  shows "\<exists>w r. CalculateWeight (Some b) (Some t) = Ok w \<and> fprec w = 64 \<and> fval w = Finite r
           \<and> \<bar>r - of_int b / of_int t\<bar> \<le> \<bar>of_int b / of_int t\<bar> / 10 ^ 9"
proof -
  let ?u = "1 / 2 ^ 64 :: rat"
  let ?v = "1 / (2 * 10 ^ 9) :: rat"
  let ?B = "of_int b :: rat"
  let ?T = "of_int t :: rat"
  let ?q = "round_sig 2 64 ?B / round_sig 2 64 ?T"
  let ?e1 = "(?u + ?u) / (1 - ?u)"
  let ?e2 = "?e1 + ?u + ?e1 * ?u"
  let ?e3 = "?e2 + ?v + ?e2 * ?v"
  let ?e4 = "?e3 + ?u + ?e3 * ?u"
  from assms have t: "?T \<noteq> 0"
    using Int64_zero by auto
  have q: "rel_close ?e1 ?q (?B / ?T)"
    by (rule rel_close_divide [OF rel_close_round2 rel_close_round2 _ _ _ t]) simp_all
  have "rel_close ?e2 (round_sig 2 64 ?q) (?B / ?T)"
    by (rule rel_close_trans [OF q rel_close_round2]) simp
  then have "rel_close ?e3 (round_sig 10 10 (round_sig 2 64 ?q)) (?B / ?T)"
    by (rule rel_close_trans [OF _ rel_close_round10]) simp
  then have "rel_close ?e4 (round_sig 2 64 (round_sig 10 10 (round_sig 2 64 ?q))) (?B / ?T)"
    by (rule rel_close_trans [OF _ rel_close_round2]) simp
  moreover have "?e4 \<le> 1 / 10 ^ 9"
    by simp
  ultimately have "rel_close (1 / 10 ^ 9) (round_sig 2 64 (round_sig 10 10 (round_sig 2 64 ?q))) (?B / ?T)"
    by (rule rel_close_mono)
  then show ?thesis
    by (simp add: CalculateWeight_value [OF assms] rel_close_def)
qed

text \<open>The statement above at balance 1 and total 3.\<close>

theorem CalculateWeight_relative_error_witness:
  "Int64 3 \<noteq> 0
   \<and> (\<exists>w r. CalculateWeight (Some 1) (Some 3) = Ok w \<and> fprec w = 64 \<and> fval w = Finite r
          \<and> \<bar>r - of_int 1 / of_int 3\<bar> \<le> \<bar>of_int 1 / of_int 3\<bar> / 10 ^ 9)"
proof -
  have h: "Int64 3 \<noteq> 0"
    by (simp add: Int64_eq_0_iff)
  from CalculateWeight_relative_error [OF h, of 1] h show ?thesis
    by blast
qed

text \<open>
  Claim C8 as written fails: for balance 1 and total 3 the result is the float nearest to
  0.3333333333, which differs from a third in the eleventh significant digit.
\<close>

theorem weight_not_exact_counterexample:
  "CalculateWeight (Some 1) (Some 3)
     = Ok \<lparr>fprec = 64, fval = Finite (768614336327703217 / 2305843009213693952)\<rparr>
   \<and> (768614336327703217 / 2305843009213693952 :: rat) \<noteq> 1 / 3
   \<and> 1 / 10 ^ 11 < \<bar>768614336327703217 / 2305843009213693952 - 1 / 3 :: rat\<bar>"
  by (simp add: weight_third)


text \<open>
  Claim C10. When the ledger is found and the lookup of its staking records reports NotFound,
  the run neither returns the success of a missing ledger nor an error: with the first block
  found it is the weight pass, the split and the imports on the records that came with
  NotFound.
\<close>

theorem records_not_found_continues:
  assumes "Coinbase block \<noteq> None" "TransactionsFees block \<noteq> None" "SnarkJobsFees block \<noteq> None"
    and "GetValidatorEpochs db (Epoch block) (Creator block) = (ve # ves, None)"
    and "FindLedger db (Epoch block) = (ledger, None)"
    and "LedgerRecords db (ID ledger) = (records, Some ErrNotFound)"
    and "FirstBlockOfEpoch db (Epoch block) = (Some first, None)"
  shows "RewardCalculation deps db h block
         = distribute deps db h block
             (Amount_Sub (Amount_Add (Coinbase block) (TransactionsFees block)) (SnarkJobsFees block))
             (ValidatorFee ve) ledger records (Slot first)"
  using assms by (auto simp add: RewardCalculation_def)

text \<open>
  With no records, the run goes through both passes, imports the empty delegator batch and
  then the validator's reward.
\<close>

theorem records_not_found_continues_witness:
  "Coinbase block0 \<noteq> None \<and> TransactionsFees block0 \<noteq> None \<and> SnarkJobsFees block0 \<noteq> None
   \<and> LedgerRecords store_records_absent ''L'' = ([], Some ErrNotFound)
   \<and> distribute deps_spec store_records_absent heap0 block0
        (Amount_Sub (Amount_Add (Coinbase block0) (TransactionsFees block0)) (SnarkJobsFees block0))
        (Some 0) \<lparr>ID = ''L'', StakedAmount = Some 1000\<rparr> [] 1
       = (Ok (),
          [[], [\<lparr>OwnerAccount = ''V'', OwnerType = Validator, Reward = Some (Finite 10)\<rparr>]],
          heap0(0 := \<lparr>fprec = 64, fval = Finite (14757395258967641293 / 147573952589676412928)\<rparr>))"
proof -
  have p: "Coinbase block0 \<noteq> None" "TransactionsFees block0 \<noteq> None" "SnarkJobsFees block0 \<noteq> None"
    by (simp_all add: block0_def)
  have v: "GetValidatorEpochs store_records_absent (Epoch block0) (Creator block0)
             = (\<lparr>ValidatorFee = Some 0\<rparr> # [], None)"
    by (simp add: store_records_absent_def store0_def)
  have l: "FindLedger store_records_absent (Epoch block0)
             = (\<lparr>ID = ''L'', StakedAmount = Some 1000\<rparr>, None)"
    by (simp add: store_records_absent_def store0_def)
  have r: "LedgerRecords store_records_absent (ID \<lparr>ID = ''L'', StakedAmount = Some 1000\<rparr>)
             = ([], Some ErrNotFound)"
    by (simp add: store_records_absent_def)
  have f: "FirstBlockOfEpoch store_records_absent (Epoch block0)
             = (Some (block0\<lparr>Slot := 1\<rparr>), None)"
    by (simp add: store_records_absent_def store0_def)
  from records_not_found_continues [OF p v l r f, of deps_spec heap0] p r
  show ?thesis
    by (simp add: scenario_run_records_absent)
qed

end
